theory Spec2Isabelle
  imports Main
begin

section \<open>Python values used by \<open>fdf_to_wkt.py\<close>\<close>

text \<open>
  A Python \<open>str\<close> is modelled as an Isabelle \<open>string\<close>; a \<open>char\<close> stands for a code
  point below 256 (code points above 255 lie outside the model). The exceptions the source can
  raise are values of \<open>error\<close>; a function that can raise returns \<open>error + 'a\<close>.
  \<^item> \<open>TypeError\<close>: subscripting \<open>None\<close> (\<open>parse.search(...)[0]\<close> without a match);
  \<^item> \<open>ValueError\<close>: unpacking a list of the wrong length, \<open>float\<close> of a non-number;
  \<^item> \<open>IndexError\<close>: \<open>acc[0]\<close> on an empty list.
\<close>

datatype error = TypeError | ValueError | IndexError

text \<open>
  A Python \<open>float\<close> is represented by the text that \<open>float\<close> was applied to:
  \<open>Float_of ''2.5''\<close> stands for \<open>float("2.5")\<close>, the value of the literal \<open>2.5\<close>.
  Rounding and float arithmetic are not modelled; the source performs none.
\<close>

datatype pyfloat = Float_of string

record AnnotationProperties =
  line_color :: "(pyfloat \<times> pyfloat \<times> pyfloat) option"
  line_opacity :: "pyfloat option"
  line_weight :: "pyfloat option"
  line_type :: "(pyfloat \<times> pyfloat list) option"
  fill_color :: "(pyfloat \<times> pyfloat \<times> pyfloat) option"
  fill_opacity :: "pyfloat option"

text \<open>The field \<open>geom\<close> (a shapely object) lies outside the model.\<close>

record Annotation =
  object_type :: string
  vertices :: string
  page :: "string option"
  label :: "string option"
  properties :: "AnnotationProperties option"
  wkt :: "string option"

section \<open>String primitives\<close>

text \<open>\<open>s.split(d)\<close> for a one-character separator: one more piece than separators.\<close>

fun split_on :: "char \<Rightarrow> string \<Rightarrow> string list" where
  "split_on d [] = [[]]"
| "split_on d (c # cs) =
     (if c = d then [] # split_on d cs
      else (case split_on d cs of
              [] \<Rightarrow> [[c]]
            | w # ws \<Rightarrow> (c # w) # ws))"

text \<open>\<open>sep.join(xs)\<close>.\<close>

fun join :: "string \<Rightarrow> string list \<Rightarrow> string" where
  "join sep [] = []"
| "join sep [x] = x"
| "join sep (x # y # ys) = x @ sep @ join sep (y # ys)"

text \<open>
  Case folding of \<open>re.IGNORECASE\<close>: among code points below 256 only the ASCII letters
  are folded onto the ASCII letters of a pattern.
\<close>

definition lower_ascii :: "char \<Rightarrow> char" where
  "lower_ascii c =
     (case map_of (zip ''ABCDEFGHIJKLMNOPQRSTUVWXYZ'' ''abcdefghijklmnopqrstuvwxyz'') c of
        None \<Rightarrow> c
      | Some l \<Rightarrow> l)"

definition char_eq :: "bool \<Rightarrow> char \<Rightarrow> char \<Rightarrow> bool" where
  "char_eq case_sensitive p c = (if case_sensitive then p = c else lower_ascii p = lower_ascii c)"

text \<open>\<open>starts_with cs p s\<close>: the literal text \<open>p\<close> matches at the start of \<open>s\<close>.\<close>

fun starts_with :: "bool \<Rightarrow> string \<Rightarrow> string \<Rightarrow> bool" where
  "starts_with cs [] s = True"
| "starts_with cs (p # ps) [] = False"
| "starts_with cs (p # ps) (c # s) = (char_eq cs p c \<and> starts_with cs ps s)"

text \<open>\<open>sub in s\<close>, Python's substring test.\<close>

fun contains :: "string \<Rightarrow> string \<Rightarrow> bool" where
  "contains sub [] = (sub = [])"
| "contains sub (c # s) = (starts_with True sub (c # s) \<or> contains sub s)"

text \<open>The characters for which \<open>str.isspace\<close> holds, below code point 256.\<close>

definition is_space :: "char \<Rightarrow> bool" where
  "is_space c = (c \<in> set [CHR 0x09, CHR 0x0A, CHR 0x0B, CHR 0x0C, CHR 0x0D, CHR 0x1C, CHR 0x1D,
     CHR 0x1E, CHR 0x1F, CHR 0x20, CHR 0x85, CHR 0xA0])"

text \<open>
  \<open>s.split()\<close> without a separator: the maximal runs of non-space characters.
  The second argument is the word being collected; the source's call is \<open>split_ws s []\<close>.
\<close>

fun split_ws :: "string \<Rightarrow> string \<Rightarrow> string list" where
  "split_ws [] cur = (if cur = [] then [] else [cur])"
| "split_ws (c # s) cur =
     (if is_space c then (if cur = [] then split_ws s [] else cur # split_ws s [])
      else split_ws s (cur @ [c]))"

definition strip :: "string \<Rightarrow> string" where
  "strip s = rev (dropWhile is_space (rev (dropWhile is_space s)))"

definition is_digit :: "char \<Rightarrow> bool" where
  "is_digit c = (c \<in> set ''0123456789'')"

subsection \<open>\<open>float(text)\<close>\<close>

text \<open>
  \<open>float\<close> accepts, after stripping white space, an optional sign followed by
  \<open>inf\<close>, \<open>infinity\<close> or \<open>nan\<close> in any case, or by a decimal number with an optional
  exponent, where single underscores may separate digits; it raises \<open>ValueError\<close> on
  any other text.
\<close>

definition is_digitpart :: "string \<Rightarrow> bool" where
  "is_digitpart s =
     (s \<noteq> [] \<and> is_digit (hd s) \<and> is_digit (last s) \<and>
      list_all (\<lambda>c. is_digit c \<or> c = CHR ''_'') s \<and>
      \<not> contains ''__'' s)"

definition drop_sign :: "string \<Rightarrow> string" where
  "drop_sign s = (case s of [] \<Rightarrow> [] | c # r \<Rightarrow> if c = CHR ''+'' \<or> c = CHR ''-'' then r else s)"

definition is_number :: "string \<Rightarrow> bool" where
  "is_number s =
     (let ip = takeWhile (\<lambda>c. c \<noteq> CHR ''.'') s;
          fp = drop (Suc (length ip)) s
      in if CHR ''.'' \<in> set s
         then (ip = [] \<or> is_digitpart ip) \<and> (fp = [] \<or> is_digitpart fp) \<and> \<not> (ip = [] \<and> fp = [])
         else is_digitpart s)"

definition is_float_text :: "string \<Rightarrow> bool" where
  "is_float_text s =
     (let a = drop_sign (strip s);
          l = map lower_ascii a;
          m = takeWhile (\<lambda>c. c \<noteq> CHR ''e'') l;
          e = drop (Suc (length m)) l
      in l \<in> set [''inf'', ''infinity'', ''nan''] \<or>
         (if CHR ''e'' \<in> set l then is_number m \<and> is_digitpart (drop_sign e) else is_number l))"

definition py_float :: "string \<Rightarrow> error + pyfloat" where
  "py_float s = (if is_float_text s then Inr (Float_of s) else Inl ValueError)"

section \<open>The \<open>parse.search\<close> calls of the source\<close>

text \<open>
  The source finds every field with \<open>parse.search(format, line)\<close> of the \<open>parse\<close>
  library, which is not part of the repository. The library turns the format into a
  regular expression and returns the groups of the leftmost match, or \<open>None\<close>:
  \<^item> literal text matches itself, ignoring case unless \<open>case_sensitive=True\<close>;
  \<^item> \<open>{}\<close> is the group \<open>(.+?)\<close>: at least one character, as few as possible,
    newlines included;
  \<^item> \<open>{:g}\<close> is the group
    \<open>([-+ ]?\d+(\.\d+)?([eE][-+]?\d+)?|nan|NAN|[-+]?inf|[-+]?INF)\<close>, converted by \<open>float\<close>.
  The model covers these two field kinds, the only ones the source uses. A match is the
  list of the texts of its groups; the conversion of a \<open>{:g}\<close> group is \<open>Float_of\<close> of
  its text, applied where the source reads the group.
\<close>

datatype fmt = Text string | Any | Num

fun compile :: "string \<Rightarrow> fmt list" where
  "compile [] = []"
| "compile (c # s) =
     (if starts_with True ''{}'' (c # s) then Any # compile (drop 1 s)
      else if starts_with True ''{:g}'' (c # s) then Num # compile (drop 3 s)
      else (case compile s of
              Text t # fs \<Rightarrow> Text (c # t) # fs
            | fs \<Rightarrow> Text [c] # fs))"

definition digits_len :: "string \<Rightarrow> nat" where
  "digits_len s = length (takeWhile is_digit s)"

text \<open>The length of the longest match of \<open>\d+(\.\d+)?([eE][-+]?\d+)?\<close> at the start of \<open>s\<close>.\<close>

definition number_len :: "string \<Rightarrow> nat option" where
  "number_len s =
     (let n1 = digits_len s in
      if n1 = 0 then None
      else
        let s1 = drop n1 s;
            n2 = (case s1 of
                    [] \<Rightarrow> 0
                  | c # r \<Rightarrow> if c = CHR ''.'' \<and> 0 < digits_len r then 1 + digits_len r else 0);
            s2 = drop n2 s1;
            n3 = (case s2 of
                    [] \<Rightarrow> 0
                  | c # r \<Rightarrow>
                      if c = CHR ''e'' \<or> c = CHR ''E''
                      then (let sg = (case r of
                                        [] \<Rightarrow> 0
                                      | d # _ \<Rightarrow> if d = CHR ''-'' \<or> d = CHR ''+'' then 1 else 0);
                                m = digits_len (drop sg r)
                            in if 0 < m then 1 + sg + m else 0)
                      else 0)
        in Some (n1 + n2 + n3))"

text \<open>
  The length of the \<open>{:g}\<close> group at the start of \<open>s\<close>. In every format of the source the
  group is followed by literal text that starts with a space or a slash, which no
  shorter match of the group can precede, so the longest match is the only candidate.
\<close>

definition g_len :: "bool \<Rightarrow> string \<Rightarrow> nat option" where
  "g_len cs s =
     (case s of
        [] \<Rightarrow> None
      | c # r \<Rightarrow>
          (case (if c \<in> set ''-+ '' then map_option Suc (number_len r) else number_len s) of
             Some n \<Rightarrow> Some n
           | None \<Rightarrow>
               if starts_with cs ''nan'' s \<or> starts_with cs ''NAN'' s then Some 3
               else
                 let sg = (if c = CHR ''-'' \<or> c = CHR ''+'' then 1 else 0)
                 in if starts_with cs ''inf'' (drop sg s) \<or> starts_with cs ''INF'' (drop sg s)
                    then Some (sg + 3) else None))"

text \<open>
  \<open>match_fmt cs fs s\<close>: the groups of the first match of the format \<open>fs\<close> that starts
  at the start of \<open>s\<close>, in the order a backtracking matcher tries them: a \<open>{}\<close> group
  takes one character and grows only while the rest of the format does not match.
\<close>

fun match_fmt :: "bool \<Rightarrow> fmt list \<Rightarrow> string \<Rightarrow> string list option" where
  "match_fmt cs [] s = Some []"
| "match_fmt cs (Text t # fs) s =
     (if starts_with cs t s then match_fmt cs fs (drop (length t) s) else None)"
| "match_fmt cs (Num # fs) s =
     (case g_len cs s of
        None \<Rightarrow> None
      | Some n \<Rightarrow> map_option ((#) (take n s)) (match_fmt cs fs (drop n s)))"
| "match_fmt cs (Any # fs) [] = None"
| "match_fmt cs (Any # fs) (c # s) =
     (case match_fmt cs fs s of
        Some r \<Rightarrow> Some ([c] # r)
      | None \<Rightarrow>
          (case match_fmt cs (Any # fs) s of
             Some (w # r) \<Rightarrow> Some ((c # w) # r)
           | _ \<Rightarrow> None))"

text \<open>The leftmost position of \<open>s\<close> at which \<open>m\<close> matches.\<close>

fun first_match :: "(string \<Rightarrow> 'a option) \<Rightarrow> string \<Rightarrow> 'a option" where
  "first_match m [] = m []"
| "first_match m (c # s) = (case m (c # s) of Some r \<Rightarrow> Some r | None \<Rightarrow> first_match m s)"

definition parse_search :: "string \<Rightarrow> string \<Rightarrow> bool \<Rightarrow> string list option" where
  "parse_search format string case_sensitive =
     first_match (match_fmt case_sensitive (compile format)) string"

section \<open>Field extractors\<close>

text \<open>
  \<open>extract_type_and_vertices\<close> subscripts the result of the second search without
  testing it, so a missing vertex field raises \<open>TypeError\<close>; unpacking a bounding box
  that has not four parts raises \<open>ValueError\<close>. An object type outside the three groups
  falls off the end (\<open>None\<close>).
\<close>

text \<open>\<open>result[0]\<close> for the result of a search: \<open>None\<close> cannot be subscripted.\<close>

definition subscript0 :: "string list option \<Rightarrow> error + string" where
  "subscript0 result =
     (case result of
        None \<Rightarrow> Inl TypeError
      | Some [] \<Rightarrow> Inl IndexError
      | Some (x # _) \<Rightarrow> Inr x)"

text \<open>\<open>x1, y1, x2, y2 = xs\<close>.\<close>

definition unpack4 :: "string list \<Rightarrow> error + string \<times> string \<times> string \<times> string" where
  "unpack4 xs =
     (case xs of
        [x1, y1, x2, y2] \<Rightarrow> Inr (x1, y1, x2, y2)
      | _ \<Rightarrow> Inl ValueError)"

definition extract_type_and_vertices :: "string \<Rightarrow> error + (string \<times> string) option" where
  "extract_type_and_vertices line =
     (case parse_search ''obj<</Subj({})'' line False of
        None \<Rightarrow> Inr None
      | Some possible_annotation \<Rightarrow>
          (case subscript0 (Some possible_annotation) of
             Inl e \<Rightarrow> Inl e
           | Inr annot_type \<Rightarrow>
               if annot_type = ''Line''
               then (case subscript0 (parse_search ''/L[{}]'' line False) of
                       Inl e \<Rightarrow> Inl e
                     | Inr vs \<Rightarrow> Inr (Some (annot_type, vs)))
               else if annot_type \<in> set [''Circle'', ''PolyLine'', ''Polygon'']
               then (case subscript0 (parse_search ''/Vertices[{}]'' line False) of
                       Inl e \<Rightarrow> Inl e
                     | Inr vs \<Rightarrow> Inr (Some (annot_type, vs)))
               else if annot_type \<in> set [''Rectangle'', ''Square'']
               then (case subscript0 (parse_search ''/Rect[{}]'' line False) of
                       Inl e \<Rightarrow> Inl e
                     | Inr bbox \<Rightarrow>
                         (case unpack4 (split_ws bbox []) of
                            Inl e \<Rightarrow> Inl e
                          | Inr (x1, y1, x2, y2) \<Rightarrow>
                              Inr (Some (annot_type, join '' '' [x1, y1, x1, y2, x2, y2, x2, y1]))))
               else Inr None))"

text \<open>The dictionary returned by \<open>extract_object_properties\<close>, with its four keys.\<close>

record object_props =
  op_fill_opacity :: "pyfloat option"
  op_line_opacity :: "pyfloat option"
  op_label :: "string option"
  op_page :: "string option"

text \<open>\<open>if r: r = r[0]\<close>, for a \<open>{:g}\<close> group and for a \<open>{}\<close> group.\<close>

definition first_float :: "string list option \<Rightarrow> pyfloat option" where
  "first_float r = (case r of Some (x # _) \<Rightarrow> Some (Float_of x) | _ \<Rightarrow> None)"

definition first_str :: "string list option \<Rightarrow> string option" where
  "first_str r = (case r of Some (x # _) \<Rightarrow> Some x | _ \<Rightarrow> None)"

definition extract_object_opacity :: "string \<Rightarrow> pyfloat option \<times> pyfloat option" where
  "extract_object_opacity line =
     (first_float (parse_search ''/FillOpacity {:g}/'' line False),
      first_float (parse_search ''/LineOpacity {:g}/'' line False))"

definition extract_label :: "string \<Rightarrow> string option" where
  "extract_label line = first_str (parse_search ''/Contents({})/'' line False)"

definition extract_page :: "string \<Rightarrow> string option" where
  "extract_page line = first_str (parse_search ''/Page({})'' line False)"

definition extract_object_properties :: "string \<Rightarrow> object_props" where
  "extract_object_properties line =
     \<lparr>op_fill_opacity = fst (extract_object_opacity line),
      op_line_opacity = snd (extract_object_opacity line),
      op_label = extract_label line,
      op_page = extract_page line\<rparr>"

text \<open>\<open>tuple(result)\<close> of a match with three \<open>{:g}\<close> groups.\<close>

definition color_of :: "string list option \<Rightarrow> (pyfloat \<times> pyfloat \<times> pyfloat) option" where
  "color_of r =
     (case r of
        Some [a, b, c] \<Rightarrow> Some (Float_of a, Float_of b, Float_of c)
      | _ \<Rightarrow> None)"

definition parse_line_color :: "string \<Rightarrow> (pyfloat \<times> pyfloat \<times> pyfloat) option" where
  "parse_line_color stream_line = color_of (parse_search ''{:g} {:g} {:g} RG'' stream_line True)"

definition parse_fill_color :: "string \<Rightarrow> (pyfloat \<times> pyfloat \<times> pyfloat) option" where
  "parse_fill_color stream_line = color_of (parse_search ''{:g} {:g} {:g} rg'' stream_line True)"

definition parse_line_weight :: "string \<Rightarrow> pyfloat option" where
  "parse_line_weight stream_line = first_float (parse_search '' {:g} w'' stream_line True)"

text \<open>The loop \<open>for line in ...split(" "): acc.append(float(line))\<close>.\<close>

fun floats :: "string list \<Rightarrow> error + pyfloat list" where
  "floats [] = Inr []"
| "floats (t # ts) =
     (case py_float t of
        Inl e \<Rightarrow> Inl e
      | Inr f \<Rightarrow> (case floats ts of Inl e \<Rightarrow> Inl e | Inr fs \<Rightarrow> Inr (f # fs)))"

definition parse_line_type :: "string \<Rightarrow> error + (pyfloat \<times> pyfloat list) option" where
  "parse_line_type stream_line =
     (case parse_search '' [{}] {:g} d'' stream_line False of
        None \<Rightarrow> Inr None
      | Some [] \<Rightarrow> Inl IndexError
      | Some [pat] \<Rightarrow> (case floats (split_on CHR '' '' pat) of
                         Inl e \<Rightarrow> Inl e | Inr acc \<Rightarrow> Inl IndexError)
      | Some (pat # phase # _) \<Rightarrow>
          (case floats (split_on CHR '' '' pat) of
             Inl e \<Rightarrow> Inl e
           | Inr acc \<Rightarrow> Inr (Some (Float_of phase, acc))))"

text \<open>The dictionary returned by \<open>extract_stream_properties\<close>, with its four keys.\<close>

record stream_props =
  sp_line_color :: "(pyfloat \<times> pyfloat \<times> pyfloat) option"
  sp_fill_color :: "(pyfloat \<times> pyfloat \<times> pyfloat) option"
  sp_line_weight :: "pyfloat option"
  sp_line_type :: "(pyfloat \<times> pyfloat list) option"

definition extract_stream_properties :: "string \<Rightarrow> error + stream_props" where
  "extract_stream_properties stream_line =
     (case parse_line_type stream_line of
        Inl e \<Rightarrow> Inl e
      | Inr lt \<Rightarrow>
          Inr \<lparr>sp_line_color = parse_line_color stream_line,
               sp_fill_color = parse_fill_color stream_line,
               sp_line_weight = parse_line_weight stream_line,
               sp_line_type = lt\<rparr>)"

section \<open>Annotation assembler\<close>

text \<open>
  The local variables of \<open>get_annotations_from_fdf\<close>. The source's \<open>vertices\<close>,
  \<open>label\<close> and \<open>page\<close> are \<open>pending_vertices\<close>, \<open>pending_label\<close> and \<open>pending_page\<close>
  here (the names are fields of \<open>Annotation\<close> already); \<open>label\<close> and \<open>page\<close> are unbound in
  the source until the first header is adopted and are read only after that.
  \<open>stream_properties\<close> is \<open>None\<close> for the empty dictionary. The dictionary
  \<open>annotation_properties\<close> only ever holds keys that are fields of
  \<open>AnnotationProperties\<close>, and a missing key and a key bound to \<open>None\<close> build the same
  object, so it is modelled by the record it is unpacked into.
\<close>

record scanner =
  annotations :: "Annotation list"
  in_stream_data :: bool
  stream_data :: "string option"
  stream_properties :: "stream_props option"
  annotation_properties :: AnnotationProperties
  annot_type :: "string option"
  pending_vertices :: "string option"
  pending_label :: "string option"
  pending_page :: "string option"

definition init_scanner :: scanner where
  "init_scanner =
     \<lparr>annotations = [], in_stream_data = False, stream_data = None, stream_properties = None,
      annotation_properties = \<lparr>line_color = None, line_opacity = None, line_weight = None,
        line_type = None, fill_color = None, fill_opacity = None\<rparr>,
      annot_type = None, pending_vertices = None, pending_label = None, pending_page = None\<rparr>"

text \<open>Python's truth value of a variable that holds \<open>None\<close> or a string.\<close>

definition truthy :: "string option \<Rightarrow> bool" where
  "truthy v = (case v of None \<Rightarrow> False | Some s \<Rightarrow> s \<noteq> [])"

text \<open>\<open>annotation_properties.update(...)\<close> with each of the two dictionaries.\<close>

definition update_stream :: "AnnotationProperties \<Rightarrow> stream_props \<Rightarrow> AnnotationProperties" where
  "update_stream d sp =
     d\<lparr>line_color := sp_line_color sp, fill_color := sp_fill_color sp,
       line_weight := sp_line_weight sp, line_type := sp_line_type sp\<rparr>"

definition update_object :: "AnnotationProperties \<Rightarrow> object_props \<Rightarrow> AnnotationProperties" where
  "update_object d op =
     d\<lparr>fill_opacity := op_fill_opacity op, line_opacity := op_line_opacity op\<rparr>"

text \<open>
  Lines 104 to 124 of the loop body: the two extractions, then either the emission of
  the pending annotation or the adoption of this line's type and vertices. The guards
  make every \<open>the\<close> below apply to a \<open>Some\<close>.
\<close>

definition assemble :: "scanner \<Rightarrow> string \<Rightarrow> error + scanner" where
  "assemble s line =
     (case extract_type_and_vertices line of
        Inl e \<Rightarrow> Inl e
      | Inr type_and_vertices \<Rightarrow>
          let object_properties = extract_object_properties line
          in if truthy (annot_type s) \<and> truthy (pending_vertices s) \<and> stream_properties s \<noteq> None
             then
               let props = update_stream (annotation_properties s) (the (stream_properties s));
                   annotation = \<lparr>object_type = the (annot_type s),
                                 vertices = the (pending_vertices s),
                                 page = pending_page s,
                                 label = pending_label s,
                                 properties = Some props,
                                 wkt = None\<rparr>
               in Inr (s\<lparr>annotation_properties := props, stream_properties := None,
                         annotations := annotations s @ [annotation]\<rparr>)
             else
               (case type_and_vertices of
                  None \<Rightarrow> Inr s
                | Some (t, v) \<Rightarrow>
                    Inr (s\<lparr>annot_type := Some t, pending_vertices := Some v,
                           pending_label := op_label object_properties,
                           pending_page := op_page object_properties,
                           annotation_properties :=
                             update_object (annotation_properties s) object_properties\<rparr>)))"

text \<open>
  One iteration of the loop. The first branch does not \<open>continue\<close>: it falls through to
  the extraction and emission code with the closing line.
\<close>

definition step :: "scanner \<Rightarrow> string \<Rightarrow> error + scanner" where
  "step s line =
     (if contains ''endstream'' line \<and> truthy (stream_data s)
      then (case extract_stream_properties (the (stream_data s)) of
              Inl e \<Rightarrow> Inl e
            | Inr sp \<Rightarrow> assemble (s\<lparr>stream_properties := Some sp, stream_data := None\<rparr>) line)
      else if in_stream_data s
      then Inr (s\<lparr>stream_data := Some line, in_stream_data := False\<rparr>)
      else if parse_search ''{} 0 obj<<'' line False = None \<and> \<not> contains ''stream'' line
      then Inr s
      else if contains ''stream'' line
      then Inr (s\<lparr>in_stream_data := True\<rparr>)
      else assemble s line)"

fun scan :: "scanner \<Rightarrow> string list \<Rightarrow> error + scanner" where
  "scan s [] = Inr s"
| "scan s (line # rest) = (case step s line of Inl e \<Rightarrow> Inl e | Inr s' \<Rightarrow> scan s' rest)"

definition get_annotations_from_fdf :: "string list \<Rightarrow> error + Annotation list" where
  "get_annotations_from_fdf fdf_str =
     (case scan init_scanner fdf_str of Inl e \<Rightarrow> Inl e | Inr s \<Rightarrow> Inr (annotations s))"

section \<open>Geometry converter\<close>

text \<open>
  \<open>group_vertices\<close> and \<open>annotation_to_wkt\<close> are the same, line for line, in
  \<open>fdf_to_wkt.py\<close> and \<open>fdf_to_shapely.py\<close>.
\<close>

text \<open>
  The loop of \<open>group_vertices\<close> over \<open>enumerate(vertices.split(" "))\<close>, with the two
  lists \<open>acc\<close> and \<open>coordinates\<close> it mutates. It returns the final \<open>acc\<close>.
\<close>

fun group_loop :: "(nat \<times> string) list \<Rightarrow> string list \<Rightarrow> string list \<Rightarrow> string list" where
  "group_loop [] acc coordinates = acc"
| "group_loop ((idx, ordinate) # rest) acc coordinates =
     (if idx mod 2 \<noteq> 0
      then group_loop rest (acc @ [join '' '' (coordinates @ [ordinate])]) []
      else group_loop rest acc (coordinates @ [ordinate]))"

definition group_vertices :: "string \<Rightarrow> bool \<Rightarrow> error + string" where
  "group_vertices vs close =
     (let acc = group_loop (enumerate 0 (split_on CHR '' '' vs)) [] []
      in if close
         then (case acc of
                 [] \<Rightarrow> Inl IndexError
               | a # _ \<Rightarrow> Inr (join '', '' (acc @ [a])))
         else Inr (join '', '' acc))"

text \<open>
  \<open>annotation_to_wkt\<close> returns a string in two branches and falls off the end
  (Python's \<open>None\<close>) for every other object type.
\<close>

definition annotation_to_wkt :: "'a Annotation_scheme \<Rightarrow> error + string option" where
  "annotation_to_wkt annot =
     (if object_type annot = ''PolyLine'' \<or> object_type annot = ''Line''
      then (case group_vertices (vertices annot) False of
              Inl e \<Rightarrow> Inl e
            | Inr grouped_vertices \<Rightarrow> Inr (Some (''LINESTRING('' @ grouped_vertices @ '')'')))
      else if object_type annot = ''Polygon'' \<or> object_type annot = ''Rectangle''
      then (case group_vertices (vertices annot) True of
              Inl e \<Rightarrow> Inl e
            | Inr grouped_vertices \<Rightarrow> Inr (Some (''POLYGON(('' @ grouped_vertices @ ''))'')))
      else Inr None)"

section \<open>Reference notions used in the statements\<close>

text \<open>Pairing a token list two by two, a trailing single token left out.\<close>

fun pair_up :: "'a list \<Rightarrow> ('a \<times> 'a) list" where
  "pair_up (x # y # rest) = (x, y) # pair_up rest"
| "pair_up _ = []"

text \<open>
  The first \<open>n\<close> coordinate pairs of a vertex string as the specification describes
  them: tokens at positions \<open>2i\<close> and \<open>2i + 1\<close>, joined by one space, in input order.
\<close>

definition spec_pairs :: "string \<Rightarrow> nat \<Rightarrow> string list" where
  "spec_pairs vs n =
     (let toks = split_on CHR '' '' vs
      in map (\<lambda>i. toks ! (2 * i) @ '' '' @ toks ! (2 * i + 1)) [0..<n])"



section \<open>Facts about the string primitives and the grouping loop\<close>

lemma split_on_nonempty: "split_on d s \<noteq> []"
  by (induction s) (auto split: list.splits)

lemma split_on_append:
  "split_on d (xs @ d # t) = split_on d xs @ split_on d t"
  by (induction xs) (auto split: list.splits simp: split_on_nonempty)

lemma split_on_no_sep: "d \<notin> set t \<Longrightarrow> split_on d t = [t]"
  by (induction t) auto

text \<open>From an even index and an empty \<open>coordinates\<close>, the loop appends one string per pair.\<close>

lemma group_loop_pairs:
  "even k \<Longrightarrow> group_loop (enumerate k toks) acc [] =
     acc @ map (\<lambda>(x, y). x @ '' '' @ y) (pair_up toks)"
proof (induction toks arbitrary: k acc rule: pair_up.induct)
  case (1 x y rest)
  from 1(2) have odd: "Suc k mod 2 \<noteq> 0" "k mod 2 = 0" by presburger+
  have "even (Suc (Suc k))" using 1(2) by simp
  from 1(1)[OF this] odd show ?case by simp
qed simp_all

lemma length_pair_up: "length (pair_up xs) = length xs div 2"
  by (induction xs rule: pair_up.induct) simp_all

lemma pair_up_nth:
  "i < length xs div 2 \<Longrightarrow> pair_up xs ! i = (xs ! (2 * i), xs ! (2 * i + 1))"
proof (induction xs arbitrary: i rule: pair_up.induct)
  case (1 x y rest)
  then show ?case by (cases i) simp_all
qed simp_all

lemma map_pair_up_index:
  "map f (pair_up xs) = map (\<lambda>i. f (xs ! (2 * i), xs ! (2 * i + 1))) [0..<length xs div 2]"
  by (rule nth_equalityI) (simp_all add: length_pair_up pair_up_nth)

lemma pair_up_snoc_odd: "even (length xs) \<Longrightarrow> pair_up (xs @ [t]) = pair_up xs"
  by (induction xs rule: pair_up.induct) simp_all

lemma group_loop_split:
  "group_loop (enumerate 0 (split_on CHR '' '' vs)) [] [] =
     spec_pairs vs (length (split_on CHR '' '' vs) div 2)"
  unfolding spec_pairs_def Let_def
  by (simp add: group_loop_pairs map_pair_up_index)

lemma group_loop_drop_last:
  assumes "even (length (split_on CHR '' '' vs))" and "CHR '' '' \<notin> set t"
  shows "group_loop (enumerate 0 (split_on CHR '' '' (vs @ '' '' @ t))) [] [] =
         group_loop (enumerate 0 (split_on CHR '' '' vs)) [] []"
  using assms
  by (simp add: split_on_append split_on_no_sep group_loop_pairs pair_up_snoc_odd)

text \<open>The words of \<open>s.split()\<close> hold no white space, so joining them with single spaces
  and splitting at spaces gives them back.\<close>

lemma split_ws_no_space:
  "w \<in> set (split_ws s cur) \<Longrightarrow> \<forall>c\<in>set cur. \<not> is_space c \<Longrightarrow> \<forall>c\<in>set w. \<not> is_space c"
proof (induction s cur rule: split_ws.induct)
  case (1 cur)
  then show ?case by (simp split: if_splits)
next
  case (2 c s cur)
  have nil: "\<forall>c\<in>set []. \<not> is_space c" by simp
  show ?case
  proof (cases "is_space c")
    case sp: True
    show ?thesis
    proof (cases "cur = []")
      case True
      from "2.prems"(1) sp True have "w \<in> set (split_ws s [])" by simp
      from "2.IH"(1) [OF sp True this nil] show ?thesis .
    next
      case False
      from "2.prems"(1) sp False have "w = cur \<or> w \<in> set (split_ws s [])" by simp
      then show ?thesis
      proof
        assume "w = cur"
        with "2.prems"(2) show ?thesis by simp
      next
        assume "w \<in> set (split_ws s [])"
        from "2.IH"(2) [OF sp False this nil] show ?thesis .
      qed
    qed
  next
    case False
    from "2.prems"(1) False have w: "w \<in> set (split_ws s (cur @ [c]))" by simp
    from "2.prems"(2) False have "\<forall>a\<in>set (cur @ [c]). \<not> is_space a" by simp
    from "2.IH"(3) [OF False w this] show ?thesis .
  qed
qed

lemma is_space_blank: "is_space CHR '' ''"
  by (simp add: is_space_def)

lemma split_ws_no_blank:
  assumes "w \<in> set (split_ws s [])"
  shows "CHR '' '' \<notin> set w"
proof
  assume mem: "CHR '' '' \<in> set w"
  have "\<forall>c\<in>set w. \<not> is_space c"
    by (rule split_ws_no_space [OF assms]) simp
  then have "\<not> is_space CHR '' ''" using mem by (rule bspec)
  then show False using is_space_blank by (rule notE)
qed

lemma split_on_join_cons:
  assumes "d \<notin> set x"
  shows "split_on d (join [d] (x # y # ys)) = x # split_on d (join [d] (y # ys))"
proof -
  have "join [d] (x # y # ys) = x @ d # join [d] (y # ys)" by simp
  then show ?thesis
    by (simp only: split_on_append split_on_no_sep [OF assms] append.simps)
qed

lemma split_on_join:
  "xs \<noteq> [] \<Longrightarrow> \<forall>x\<in>set xs. d \<notin> set x \<Longrightarrow> split_on d (join [d] xs) = xs"
proof (induction xs)
  case Nil
  then show ?case by simp
next
  case (Cons x xs)
  from Cons.prems(2) have x: "d \<notin> set x" and rest: "\<forall>z\<in>set xs. d \<notin> set z" by simp_all
  show ?case
  proof (cases xs)
    case Nil
    with x show ?thesis by (simp add: split_on_no_sep)
  next
    case (Cons y ys)
    then have "xs \<noteq> []" by simp
    from Cons.IH [OF this rest] have "split_on d (join [d] xs) = xs" .
    with split_on_join_cons [OF x, of y ys] Cons show ?thesis by simp
  qed
qed

section \<open>Geometry converter: pairs, closure and failures\<close>

text \<open>
  C2. A vertex string with an even number \<open>2n\<close> of tokens, \<open>n \<ge> 1\<close>: a Line or PolyLine
  becomes \<open>LINESTRING(...)\<close> over exactly the \<open>n\<close> pairs in input order, with no closing
  pair; a Polygon or Rectangle becomes \<open>POLYGON((...))\<close> over those \<open>n\<close> pairs followed
  by the first pair again (\<open>n + 1\<close> pairs, first equal to last). Every token appears as
  the text it has in the vertex string.
\<close>

theorem wkt_even_vertices:
  assumes "length (split_on CHR '' '' (vertices annot)) = 2 * n" and "1 \<le> n"
  shows "(object_type annot = ''Line'' \<or> object_type annot = ''PolyLine'' \<longrightarrow>
            annotation_to_wkt annot =
              Inr (Some (''LINESTRING('' @ join '', '' (spec_pairs (vertices annot) n) @ '')'')))
       \<and> (object_type annot = ''Polygon'' \<or> object_type annot = ''Rectangle'' \<longrightarrow>
            annotation_to_wkt annot =
              Inr (Some (''POLYGON(('' @ join '', ''
                 (spec_pairs (vertices annot) n @ [spec_pairs (vertices annot) n ! 0]) @ ''))'')))
       \<and> length (spec_pairs (vertices annot) n) = n"
proof -
  let ?ps = "spec_pairs (vertices annot) n"
  have acc: "group_loop (enumerate 0 (split_on CHR '' '' (vertices annot))) [] [] = ?ps"
    using assms(1) by (simp add: group_loop_split)
  have len: "length ?ps = n" by (simp add: spec_pairs_def Let_def)
  with assms(2) obtain p ps where ps: "?ps = p # ps" by (cases ?ps) auto
  have open_ring: "group_vertices (vertices annot) False = Inr (join '', '' ?ps)"
    by (simp add: group_vertices_def acc)
  have closed_ring: "group_vertices (vertices annot) True = Inr (join '', '' (?ps @ [?ps ! 0]))"
    by (simp add: group_vertices_def acc ps)
  show ?thesis
    using len by (auto simp: annotation_to_wkt_def open_ring closed_ring)
qed

theorem wkt_even_vertices_witness:
  "annotation_to_wkt \<lparr>object_type = ''Polygon'', vertices = ''1 2 3 4 5 6'', page = None,
      label = None, properties = None, wkt = None\<rparr> =
     Inr (Some ''POLYGON((1 2, 3 4, 5 6, 1 2))'')
   \<and> annotation_to_wkt \<lparr>object_type = ''Line'', vertices = ''10 20 30 40'', page = None,
      label = None, properties = None, wkt = None\<rparr> =
     Inr (Some ''LINESTRING(10 20, 30 40)'')"
proof -
  let ?a = "\<lparr>object_type = ''Polygon'', vertices = ''1 2 3 4 5 6'', page = None,
      label = None, properties = None, wkt = None\<rparr>"
  let ?b = "\<lparr>object_type = ''Line'', vertices = ''10 20 30 40'', page = None,
      label = None, properties = None, wkt = None\<rparr>"
  have la: "length (split_on CHR '' '' (vertices ?a)) = 2 * 3" by simp
  have lb: "length (split_on CHR '' '' (vertices ?b)) = 2 * 2" by simp
  have pa: "spec_pairs ''1 2 3 4 5 6'' 3 = [''1 2'', ''3 4'', ''5 6'']" by code_simp
  have pb: "spec_pairs ''10 20 30 40'' 2 = [''10 20'', ''30 40'']" by code_simp
  from wkt_even_vertices [OF la] wkt_even_vertices [OF lb] pa pb show ?thesis by simp
qed

text \<open>
  C4. A Square annotation is not converted: \<open>annotation_to_wkt\<close> tests for Polygon and
  Rectangle only, so the Square that \<open>extract_type_and_vertices\<close> builds like a
  Rectangle falls off the end and the result is \<open>None\<close>, not a closed \<open>POLYGON\<close>.
\<close>

theorem square_not_converted:
  "annotation_to_wkt \<lparr>object_type = ''Square'', vertices = ''0 0 0 50 100 50 100 0'',
      page = None, label = None, properties = None, wkt = None\<rparr> = Inr None"
  by (simp add: annotation_to_wkt_def)

text \<open>
  C6, as stated, fails: for a Circle the converter raises nothing and names no type; it
  returns \<open>None\<close>.
\<close>

theorem circle_returns_none:
  "annotation_to_wkt \<lparr>object_type = ''Circle'', vertices = ''0 0 10 0 10 10 0 10'',
      page = None, label = None, properties = None, wkt = None\<rparr> = Inr None"
  by (simp add: annotation_to_wkt_def)

text \<open>
  C6, amended. For every annotation whose object type is none of Line, PolyLine,
  Polygon, Rectangle (Square set aside), Circle included, the converter returns
  \<open>None\<close>: no WKT string and no exception.
\<close>

theorem unsupported_type_returns_none:
  assumes "object_type annot \<notin> {''PolyLine'', ''Line'', ''Polygon'', ''Rectangle'', ''Square''}"
  shows "annotation_to_wkt annot = Inr None"
  using assms by (simp add: annotation_to_wkt_def)

theorem unsupported_type_returns_none_witness:
  "annotation_to_wkt \<lparr>object_type = ''Circle'', vertices = ''5 5 7 7'',
      page = None, label = None, properties = None, wkt = None\<rparr> = Inr None"
  using unsupported_type_returns_none [of "\<lparr>object_type = ''Circle'', vertices = ''5 5 7 7'',
      page = None, label = None, properties = None, wkt = None\<rparr>"]
  by simp

text \<open>
  C7, as stated, fails: three ordinate tokens give a \<open>LINESTRING\<close> of the first pair;
  the third token is dropped and nothing is raised.
\<close>

theorem odd_vertices_no_failure:
  "annotation_to_wkt \<lparr>object_type = ''Line'', vertices = ''1 2 3'',
      page = None, label = None, properties = None, wkt = None\<rparr> =
     Inr (Some ''LINESTRING(1 2)'')"
  by (simp add: annotation_to_wkt_def group_vertices_def enumerate_eq_zip upt_rec)

text \<open>
  C7, amended. A vertex string with an odd number \<open>2n + 1\<close> of tokens, \<open>n \<ge> 1\<close>, is
  converted exactly as the string without its last token: the trailing ordinate is
  left out and no exception is raised.
\<close>

theorem odd_vertices_trailing_dropped:
  assumes "even (length (split_on CHR '' '' vs))" and "CHR '' '' \<notin> set t"
  shows "annotation_to_wkt (annot\<lparr>vertices := vs @ '' '' @ t\<rparr>) =
           annotation_to_wkt (annot\<lparr>vertices := vs\<rparr>)
       \<and> (\<exists>r. annotation_to_wkt (annot\<lparr>vertices := vs @ '' '' @ t\<rparr>) = Inr r)"
proof -
  have eq: "group_vertices (vs @ '' '' @ t) close = group_vertices vs close" for close
    unfolding group_vertices_def Let_def group_loop_drop_last [OF assms] ..
  have eq': "group_vertices (vs @ CHR '' '' # t) close = group_vertices vs close" for close
    using eq [of close] by simp
  have "length (split_on CHR '' '' vs) \<noteq> 0" by (simp add: split_on_nonempty)
  with assms(1) have "2 \<le> length (split_on CHR '' '' vs)"
    by presburger
  then have "1 \<le> length (split_on CHR '' '' vs) div 2" by simp
  then obtain p ps where "pair_up (split_on CHR '' '' vs) = p # ps"
    by (cases "pair_up (split_on CHR '' '' vs)") (auto simp flip: length_pair_up simp: length_0_conv)
  then have closed_ok: "\<exists>s. group_vertices vs True = Inr s"
    by (simp add: group_vertices_def group_loop_pairs)
  have open_ok: "\<exists>s. group_vertices vs False = Inr s"
    by (simp add: group_vertices_def)
  show ?thesis
    using closed_ok open_ok by (auto simp: annotation_to_wkt_def eq')
qed

theorem odd_vertices_trailing_dropped_witness:
  "annotation_to_wkt \<lparr>object_type = ''PolyLine'', vertices = ''1 2 3 4 5'',
      page = None, label = None, properties = None, wkt = None\<rparr> =
   annotation_to_wkt \<lparr>object_type = ''PolyLine'', vertices = ''1 2 3 4'',
      page = None, label = None, properties = None, wkt = None\<rparr>"
proof -
  have e: "even (length (split_on CHR '' '' ''1 2 3 4''))" by simp
  have n: "CHR '' '' \<notin> set ''5''" by simp
  from odd_vertices_trailing_dropped [OF e n, of "\<lparr>object_type = ''PolyLine'', vertices = [],
      page = None, label = None, properties = None, wkt = None\<rparr>"]
  show ?thesis by simp
qed

text \<open>
  C10. For a Polygon or Rectangle, a vertex string with fewer than two space-separated
  tokens (the empty string, for one) makes \<open>annotation_to_wkt\<close> raise \<open>IndexError\<close>:
  the closing step reads \<open>acc[0]\<close> of an empty list. With two tokens or more the closing
  step succeeds and a string is returned.
\<close>

theorem polygon_closure_index_error:
  assumes "object_type annot = ''Polygon'' \<or> object_type annot = ''Rectangle''"
  shows "(length (split_on CHR '' '' (vertices annot)) < 2 \<longrightarrow>
            annotation_to_wkt annot = Inl IndexError)
       \<and> (2 \<le> length (split_on CHR '' '' (vertices annot)) \<longrightarrow>
            (\<exists>s. annotation_to_wkt annot = Inr (Some s)))
       \<and> annotation_to_wkt (annot\<lparr>vertices := []\<rparr>) = Inl IndexError"
proof -
  let ?toks = "split_on CHR '' '' (vertices annot)"
  have acc: "group_loop (enumerate 0 ?toks) [] [] = map (\<lambda>(x, y). x @ '' '' @ y) (pair_up ?toks)"
    by (simp add: group_loop_pairs)
  have few: "length ?toks < 2 \<Longrightarrow> pair_up ?toks = []"
    using length_pair_up [of ?toks] by simp
  have many: "2 \<le> length ?toks \<Longrightarrow> pair_up ?toks \<noteq> []"
    using length_pair_up [of ?toks] by (auto simp: div_eq_0_iff)
  have 1: "length ?toks < 2 \<longrightarrow> annotation_to_wkt annot = Inl IndexError"
    using assms few by (auto simp: annotation_to_wkt_def group_vertices_def acc)
  have 2: "2 \<le> length ?toks \<longrightarrow> (\<exists>s. annotation_to_wkt annot = Inr (Some s))"
  proof
    assume "2 \<le> length ?toks"
    then obtain p ps where "pair_up ?toks = p # ps"
      using many by (cases "pair_up ?toks") auto
    then show "\<exists>s. annotation_to_wkt annot = Inr (Some s)"
      using assms by (auto simp: annotation_to_wkt_def group_vertices_def acc)
  qed
  have 3: "annotation_to_wkt (annot\<lparr>vertices := []\<rparr>) = Inl IndexError"
    using assms by (auto simp: annotation_to_wkt_def group_vertices_def)
  from 1 2 3 show ?thesis by blast
qed

theorem polygon_closure_index_error_witness:
  "annotation_to_wkt \<lparr>object_type = ''Rectangle'', vertices = ''7'',
      page = None, label = None, properties = None, wkt = None\<rparr> = Inl IndexError
   \<and> (\<exists>s. annotation_to_wkt \<lparr>object_type = ''Rectangle'', vertices = ''7 8'',
      page = None, label = None, properties = None, wkt = None\<rparr> = Inr (Some s))"
  using polygon_closure_index_error [of "\<lparr>object_type = ''Rectangle'', vertices = ''7'',
      page = None, label = None, properties = None, wkt = None\<rparr>"]
    polygon_closure_index_error [of "\<lparr>object_type = ''Rectangle'', vertices = ''7 8'',
      page = None, label = None, properties = None, wkt = None\<rparr>"]
  by simp

section \<open>Field extractors: misses and stream operators\<close>

text \<open>
  C3. For a header line whose \<open>/Subj(...)\<close> names a Rectangle or a Square and whose
  \<open>/Rect[...]\<close> holds four numbers \<open>x1 y1 x2 y2\<close>, the extractor returns the type
  with the vertex string of exactly the eight ordinates \<open>x1 y1 x1 y2 x2 y2 x2 y1\<close>, the
  corners in that fixed order. The bounding box \<open>0 0 100 50\<close> gives the vertices
  \<open>0 0 0 50 100 50 100 0\<close>, and as a Rectangle the WKT
  \<open>POLYGON((0 0, 0 50, 100 50, 100 0, 0 0))\<close>.
\<close>

theorem rectangle_bbox_vertices:
  assumes "parse_search ''obj<</Subj({})'' line False = Some (ty # g)"
    and "ty = ''Rectangle'' \<or> ty = ''Square''"
    and "parse_search ''/Rect[{}]'' line False = Some (bbox # g')"
    and "split_ws bbox [] = [x1, y1, x2, y2]"
  shows "extract_type_and_vertices line =
           Inr (Some (ty, join '' '' [x1, y1, x1, y2, x2, y2, x2, y1]))
       \<and> split_on CHR '' '' (join '' '' [x1, y1, x1, y2, x2, y2, x2, y1]) =
           [x1, y1, x1, y2, x2, y2, x2, y1]
       \<and> extract_type_and_vertices ''1 0 obj<</Subj(Rectangle)/Rect[0 0 100 50]>>'' =
           Inr (Some (''Rectangle'', ''0 0 0 50 100 50 100 0''))
       \<and> annotation_to_wkt \<lparr>object_type = ''Rectangle'', vertices = ''0 0 0 50 100 50 100 0'',
             page = None, label = None, properties = None, wkt = None\<rparr> =
           Inr (Some ''POLYGON((0 0, 0 50, 100 50, 100 0, 0 0))'')"
proof -
  have 1: "extract_type_and_vertices line =
             Inr (Some (ty, join '' '' [x1, y1, x1, y2, x2, y2, x2, y1]))"
    using assms(2)
  proof
    assume "ty = ''Rectangle''"
    then show ?thesis
      by (simp add: extract_type_and_vertices_def subscript0_def unpack4_def assms(1,3,4))
  next
    assume "ty = ''Square''"
    then show ?thesis
      by (simp add: extract_type_and_vertices_def subscript0_def unpack4_def assms(1,3,4))
  qed
  have ns: "CHR '' '' \<notin> set x" if "x \<in> set [x1, y1, x2, y2]" for x
    using split_ws_no_blank [of x bbox] that unfolding assms(4) .
  have "\<forall>x\<in>set [x1, y1, x1, y2, x2, y2, x2, y1]. CHR '' '' \<notin> set x"
    using ns by simp
  then have 2: "split_on CHR '' '' (join '' '' [x1, y1, x1, y2, x2, y2, x2, y1]) =
           [x1, y1, x1, y2, x2, y2, x2, y1]"
    by (rule split_on_join [rotated]) simp
  have 3: "extract_type_and_vertices ''1 0 obj<</Subj(Rectangle)/Rect[0 0 100 50]>>'' =
           Inr (Some (''Rectangle'', ''0 0 0 50 100 50 100 0''))"
    by code_simp
  have 4: "annotation_to_wkt \<lparr>object_type = ''Rectangle'', vertices = ''0 0 0 50 100 50 100 0'',
             page = None, label = None, properties = None, wkt = None\<rparr> =
           Inr (Some ''POLYGON((0 0, 0 50, 100 50, 100 0, 0 0))'')"
    by code_simp
  show ?thesis by (rule conjI [OF 1 conjI [OF 2 conjI [OF 3 4]]])
qed

theorem rectangle_bbox_vertices_witness:
  "extract_type_and_vertices ''7 0 obj<</Subj(Square)/Rect[1 2 30 40]>>'' =
     Inr (Some (''Square'', ''1 2 1 40 30 40 30 2''))
   \<and> split_on CHR '' '' ''1 2 1 40 30 40 30 2'' = [''1'', ''2'', ''1'', ''40'', ''30'', ''40'', ''30'', ''2'']"
proof -
  let ?l = "''7 0 obj<</Subj(Square)/Rect[1 2 30 40]>>''"
  have a: "parse_search ''obj<</Subj({})'' ?l False = Some (''Square'' # [])" by code_simp
  have b: "''Square'' = ''Rectangle'' \<or> ''Square'' = ''Square''" by simp
  have c: "parse_search ''/Rect[{}]'' ?l False = Some (''1 2 30 40'' # [])" by code_simp
  have d: "split_ws ''1 2 30 40'' [] = [''1'', ''2'', ''30'', ''40'']" by code_simp
  have j: "join '' '' [''1'', ''2'', ''1'', ''40'', ''30'', ''40'', ''30'', ''2''] =
           ''1 2 1 40 30 40 30 2''"
    by simp
  note r = rectangle_bbox_vertices [OF a b c d]
  from conjunct1 [OF r] conjunct1 [OF conjunct2 [OF r]]
  show ?thesis unfolding j by (rule conjI)
qed

text \<open>
  C5. A header line that names a Line in \<open>/Subj(...)\<close> and has no \<open>/L[...]\<close> field makes
  \<open>extract_type_and_vertices\<close> raise \<open>TypeError\<close>, where its docstring promises \<open>None\<close>
  for a line without an annotation with vertices.
\<close>

theorem subj_without_vertices_raises:
  "extract_type_and_vertices ''1 0 obj<</Subj(Line)/Page(1)>>'' = Inl TypeError"
  by code_simp

text \<open>
  C9, as stated, fails: the line-weight format is \<open>" {:g} w"\<close>, with a space before the
  number, so the stream line \<open>2.5 w\<close> has no match and the line weight is absent.
\<close>

theorem line_weight_needs_space: "parse_line_weight ''2.5 w'' = None"
  by code_simp

text \<open>
  C9, amended. The stream line \<open>0.2 0.4 0.6 RG\<close> gives the line colour
  \<open>(0.2, 0.4, 0.6)\<close>; a line weight is read where a space precedes the number: the
  stream lines \<open>" 2.5 w"\<close> and \<open>0.2 0.4 0.6 RG 2.5 w\<close> give the line weight \<open>2.5\<close>.
\<close>

theorem stream_operator_examples:
  "parse_line_color ''0.2 0.4 0.6 RG'' = Some (Float_of ''0.2'', Float_of ''0.4'', Float_of ''0.6'')
   \<and> parse_line_weight '' 2.5 w'' = Some (Float_of ''2.5'')
   \<and> parse_line_weight ''0.2 0.4 0.6 RG 2.5 w'' = Some (Float_of ''2.5'')"
  by code_simp

section \<open>Annotation assembler: emission\<close>





























text \<open>
  C1. After an emission the assembler clears \<open>stream_properties\<close> only; the pending
  type and vertices stay. One Line header followed by two stream blocks yields the
  Line twice, the second time with the second stream's properties.
\<close>

theorem second_stream_emits_again:
  "get_annotations_from_fdf
     [''1 0 obj<</Subj(Line)/L[10 20 30 40]/Page(1)>>'',
      ''stream'', ''1 0 0 RG 2 w'', ''endstream'',
      ''stream'', ''0 1 0 RG 3 w'', ''endstream''] =
   Inr [\<lparr>object_type = ''Line'', vertices = ''10 20 30 40'', page = Some ''1'', label = None,
          properties = Some \<lparr>line_color = Some (Float_of ''1'', Float_of ''0'', Float_of ''0''),
            line_opacity = None, line_weight = Some (Float_of ''2''), line_type = None,
            fill_color = None, fill_opacity = None\<rparr>, wkt = None\<rparr>,
        \<lparr>object_type = ''Line'', vertices = ''10 20 30 40'', page = Some ''1'', label = None,
          properties = Some \<lparr>line_color = Some (Float_of ''0'', Float_of ''1'', Float_of ''0''),
            line_opacity = None, line_weight = Some (Float_of ''3''), line_type = None,
            fill_color = None, fill_opacity = None\<rparr>, wkt = None\<rparr>]"
  by code_simp

end
